theory Spec2Isabelle
  imports Complex_Main
begin

section \<open>Double-precision arithmetic of the angular accumulator\<close>

text \<open>
  The inner loop of \<open>makePath\<close> in \<open>demo2.cpp\<close> is
  \<^verbatim>\<open>for (double r = 0.0; r <= 2 * M_PI; r += M_PI / 12.0)\<close>.
  How often its body runs depends on the rounding of the accumulator, so the accumulator
  is modelled bit-exactly: a finite double is a pair \<open>Dbl m e\<close> standing for
  \<open>m * 2 ^ e\<close>, and every operation computes the exact result and rounds it to a 53-bit
  significand, ties to even (the IEEE 754 default mode). The exponent range is not
  bounded: the values of the loop lie between 0 and 7, far from overflow and from the
  subnormal range.
\<close>

datatype double = Dbl (mant: int) (expo: int)

function bitlen :: "int \<Rightarrow> nat" where
  "bitlen n = (if n \<le> 0 then 0 else Suc (bitlen (n div 2)))"
  by pat_completeness auto
termination
  by (relation "measure nat") auto

definition round_nearest_even :: "int \<Rightarrow> nat \<Rightarrow> int" where
  "round_nearest_even m k =
     (if k = 0 then m
      else if 2 ^ (k - 1) < m mod 2 ^ k then m div 2 ^ k + 1
      else if m mod 2 ^ k = 2 ^ (k - 1) \<and> odd (m div 2 ^ k) then m div 2 ^ k + 1
      else m div 2 ^ k)"

definition round53 :: "int \<Rightarrow> int \<Rightarrow> double" where
  "round53 m e =
     Dbl (sgn m * round_nearest_even \<bar>m\<bar> (bitlen \<bar>m\<bar> - 53)) (e + int (bitlen \<bar>m\<bar> - 53))"

definition dbl_add :: "double \<Rightarrow> double \<Rightarrow> double" where
  "dbl_add a b =
     round53 (mant a * 2 ^ nat (expo a - min (expo a) (expo b))
              + mant b * 2 ^ nat (expo b - min (expo a) (expo b)))
             (min (expo a) (expo b))"

definition dbl_mul :: "double \<Rightarrow> double \<Rightarrow> double" where
  "dbl_mul a b = round53 (mant a * mant b) (expo a + expo b)"

text \<open>
  Division computes at least 55 bits of the quotient and appends a sticky bit for a
  non-zero remainder, which is enough for the rounding to 53 bits to be the rounding of
  the exact quotient.
\<close>

definition div_shift :: "double \<Rightarrow> double \<Rightarrow> nat" where
  "div_shift a b = 55 + bitlen (abs (mant b)) - bitlen (abs (mant a))"

definition sticky :: "int \<Rightarrow> int \<Rightarrow> int" where
  "sticky n d = (if n mod d = 0 then 0 else 1)"

definition dbl_div :: "double \<Rightarrow> double \<Rightarrow> double" where
  "dbl_div a b =
     round53 (sgn (mant a) * sgn (mant b)
              * (2 * ((\<bar>mant a\<bar> * 2 ^ div_shift a b) div \<bar>mant b\<bar>)
                 + sticky (\<bar>mant a\<bar> * 2 ^ div_shift a b) \<bar>mant b\<bar>))
             (expo a - expo b - int (div_shift a b) - 1)"

definition dbl_le :: "double \<Rightarrow> double \<Rightarrow> bool" where
  "dbl_le a b \<longleftrightarrow>
     mant a * 2 ^ nat (expo a - min (expo a) (expo b))
       \<le> mant b * 2 ^ nat (expo b - min (expo a) (expo b))"

definition val :: "double \<Rightarrow> real" where
  "val a = (if 0 \<le> expo a then of_int (mant a) * 2 ^ nat (expo a)
            else of_int (mant a) / 2 ^ nat (- expo a))"

text \<open>
  \<open>M_PI\<close> is the macro of \<open>math.h\<close>, \<open>3.14159265358979323846\<close>; as a double it is
  \<open>0x1.921fb54442d18p+1\<close>, that is \<open>7074237752028440 * 2 ^ -51\<close>.
\<close>

definition M_PI :: double where
  "M_PI = Dbl 7074237752028440 (- 51)"

section \<open>Vectors and isometries\<close>

text \<open>
  The geometry of \<open>makePath\<close> goes through \<open>std::cos\<close>, \<open>std::sin\<close> and Eigen's
  \<open>normalized\<close>, whose results are not fixed bit for bit by the source. Coordinates are
  therefore real numbers and the vector operations are the exact ones: the theorems below
  on the frames are statements about the formulas of the source, without rounding error.
\<close>

datatype Vector3d = Vec3 (vx: real) (vy: real) (vz: real)

definition vadd :: "Vector3d \<Rightarrow> Vector3d \<Rightarrow> Vector3d" where
  "vadd a b = Vec3 (vx a + vx b) (vy a + vy b) (vz a + vz b)"

definition vsub :: "Vector3d \<Rightarrow> Vector3d \<Rightarrow> Vector3d" where
  "vsub a b = Vec3 (vx a - vx b) (vy a - vy b) (vz a - vz b)"

definition vneg :: "Vector3d \<Rightarrow> Vector3d" where
  "vneg a = Vec3 (- vx a) (- vy a) (- vz a)"

definition vscale :: "real \<Rightarrow> Vector3d \<Rightarrow> Vector3d" where
  "vscale k a = Vec3 (k * vx a) (k * vy a) (k * vz a)"

definition dot :: "Vector3d \<Rightarrow> Vector3d \<Rightarrow> real" where
  "dot a b = vx a * vx b + vy a * vy b + vz a * vz b"

definition cross :: "Vector3d \<Rightarrow> Vector3d \<Rightarrow> Vector3d" where
  "cross a b = Vec3 (vy a * vz b - vz a * vy b)
                    (vz a * vx b - vx a * vz b)
                    (vx a * vy b - vy a * vx b)"

definition squaredNorm :: "Vector3d \<Rightarrow> real" where
  "squaredNorm a = dot a a"

definition norm3 :: "Vector3d \<Rightarrow> real" where
  "norm3 a = sqrt (squaredNorm a)"

text \<open>Eigen's \<open>normalized\<close> returns a vector of squared norm 0 unchanged.\<close>

definition normalized :: "Vector3d \<Rightarrow> Vector3d" where
  "normalized a =
     (if 0 < squaredNorm a then vscale (1 / sqrt (squaredNorm a)) a else a)"

text \<open>
  An \<open>Eigen::Isometry3d\<close> is a 4x4 matrix whose upper left 3x3 block is the orientation
  (its columns are the x, y and z axes of the frame) and whose last column is the
  translation.
\<close>

record Isometry3d =
  col0 :: Vector3d
  col1 :: Vector3d
  col2 :: Vector3d
  translation :: Vector3d

definition Identity :: Isometry3d where
  "Identity = \<lparr>col0 = Vec3 1 0 0, col1 = Vec3 0 1 0, col2 = Vec3 0 0 1,
               translation = Vec3 0 0 0\<rparr>"

definition linear_apply :: "Isometry3d \<Rightarrow> Vector3d \<Rightarrow> Vector3d" where
  "linear_apply t a =
     vadd (vadd (vscale (vx a) (col0 t)) (vscale (vy a) (col1 t))) (vscale (vz a) (col2 t))"

text \<open>\<open>t * Eigen::Translation3d(a)\<close>: the orientation of \<open>t\<close> is kept.\<close>

definition times_Translation3d :: "Isometry3d \<Rightarrow> Vector3d \<Rightarrow> Isometry3d" where
  "times_Translation3d t a = t\<lparr>translation := vadd (linear_apply t a) (translation t)\<rparr>"

section \<open>The tool path: \<open>makePath\<close>\<close>

definition CYL_RADIUS :: real where
  "CYL_RADIUS = 0.2"

definition radius :: real where
  "radius = CYL_RADIUS"

definition n_slices :: nat where
  "n_slices = 5"

definition slice_height :: real where
  "slice_height = 0.1"

definition origin :: Isometry3d where
  "origin = Identity\<lparr>translation := Vec3 1.0 0 0.5\<rparr>"

definition slice_center :: "nat \<Rightarrow> Isometry3d" where
  "slice_center i = times_Translation3d origin (Vec3 0.0 0.0 (real i * slice_height))"

text \<open>The body of the inner loop: the pose pushed for the angle \<open>r\<close>.\<close>

definition make_pose :: "Isometry3d \<Rightarrow> double \<Rightarrow> Isometry3d" where
  "make_pose center r =
     (let offset = Vec3 (radius * cos (val r)) (radius * sin (val r)) 0;
          pose = times_Translation3d center offset;
          z_axis = vneg (normalized (vsub (translation pose) (translation center)));
          y_axis = normalized (Vec3 (- sin (val r)) (cos (val r)) 0.0);
          x_axis = normalized (cross y_axis z_axis)
      in pose\<lparr>col2 := z_axis, col1 := y_axis, col0 := x_axis\<rparr>)"

definition angle_bound :: double where
  "angle_bound = dbl_mul (Dbl 2 0) M_PI"

definition angle_step :: double where
  "angle_step = dbl_div M_PI (Dbl 12 0)"

text \<open>
  The inner loop, with the vector \<open>v\<close> it appends to. A loop on a floating accumulator
  need not end (an increment below half a unit in the last place leaves \<open>r\<close> unchanged),
  so the result is an option and \<open>None\<close> stands for a loop that does not return.
\<close>

partial_function (option) angular_scan ::
  "Isometry3d \<Rightarrow> double \<Rightarrow> Isometry3d list \<Rightarrow> Isometry3d list option"
where
  "angular_scan center r v =
     (if dbl_le r angle_bound
      then angular_scan center (dbl_add r angle_step) (v @ [make_pose center r])
      else Some v)"

function slice_loop :: "nat \<Rightarrow> Isometry3d list \<Rightarrow> Isometry3d list option" where
  "slice_loop i v =
     (if i < n_slices
      then (case angular_scan (slice_center i) (Dbl 0 0) v of
              None \<Rightarrow> None
            | Some v' \<Rightarrow> slice_loop (Suc i) v')
      else Some v)"
  by pat_completeness auto
termination
  by (relation "measure (\<lambda>(i, v). n_slices - i)") auto

declare slice_loop.simps [simp del]

definition makePath :: "Isometry3d list option" where
  "makePath = slice_loop 0 []"

text \<open>
  The values the accumulator takes: \<open>angle_seq n r\<close> lists \<open>n\<close> of them from \<open>r\<close> on.
\<close>

fun angle_seq :: "nat \<Rightarrow> double \<Rightarrow> double list" where
  "angle_seq 0 r = []"
| "angle_seq (Suc n) r = r # angle_seq n (dbl_add r angle_step)"

fun angle_after :: "nat \<Rightarrow> double \<Rightarrow> double" where
  "angle_after 0 r = r"
| "angle_after (Suc n) r = angle_after n (dbl_add r angle_step)"

definition sample_angles :: "double list" where
  "sample_angles = angle_seq 25 (Dbl 0 0)"

text \<open>
  \<open>nearest_sum a b\<close>: \<open>b\<close> has a significand of 53 bits and is within half a unit
  in its last place of the exact sum of \<open>a\<close> and the step.
\<close>

definition nearest_sum :: "double \<Rightarrow> double \<Rightarrow> bool" where
  "nearest_sum a b \<longleftrightarrow>
     2 ^ 52 \<le> mant b \<and> mant b < 2 ^ 53 \<and>
     \<bar>val b - (val a + val angle_step)\<bar> * 2 \<le> val (Dbl 1 (expo b))"

text \<open>The poses of one slice, in the order of the scan.\<close>

definition slice_poses :: "nat \<Rightarrow> Isometry3d list" where
  "slice_poses i = map (make_pose (slice_center i)) sample_angles"

text \<open>
  The tolerance of the frame invariant: the axes are pairwise orthogonal and of unit
  length, each up to \<open>eps\<close>.
\<close>

definition orthonormal_within :: "real \<Rightarrow> Isometry3d \<Rightarrow> bool" where
  "orthonormal_within eps p \<longleftrightarrow>
     \<bar>dot (col0 p) (col1 p)\<bar> \<le> eps \<and> \<bar>dot (col0 p) (col2 p)\<bar> \<le> eps \<and>
     \<bar>dot (col1 p) (col2 p)\<bar> \<le> eps \<and>
     \<bar>norm3 (col0 p) - 1\<bar> \<le> eps \<and> \<bar>norm3 (col1 p) - 1\<bar> \<le> eps \<and>
     \<bar>norm3 (col2 p) - 1\<bar> \<le> eps"

text \<open>
  Closeness of two vectors: every coordinate within \<open>eps\<close>.
\<close>

definition vec_within :: "real \<Rightarrow> Vector3d \<Rightarrow> Vector3d \<Rightarrow> bool" where
  "vec_within eps a b \<longleftrightarrow>
     \<bar>vx a - vx b\<bar> \<le> eps \<and> \<bar>vy a - vy b\<bar> \<le> eps \<and> \<bar>vz a - vz b\<bar> \<le> eps"

section \<open>The offset of a sample in double precision\<close>

text \<open>
  The position of a sample relative to its slice centre, as the doubles of the source
  compute it (lines 109 to 125 up to the argument of \<open>normalized\<close>): the constants are
  the doubles nearest to 0.2, 0.1 and 0.5, and every product, sum and difference is
  rounded. In \<open>1.0 + 0.2\<close> the sum is rounded, so the difference to \<open>1.0\<close> is not the
  double 0.2 again.
\<close>

definition dbl_neg :: "double \<Rightarrow> double" where
  "dbl_neg a = Dbl (- mant a) (expo a)"

definition dbl_sub :: "double \<Rightarrow> double \<Rightarrow> double" where
  "dbl_sub a b = dbl_add a (dbl_neg b)"

definition dbl_of_nat :: "nat \<Rightarrow> double" where
  "dbl_of_nat n = round53 (int n) 0"

datatype Vector3d_dbl = DVec3 (dx: double) (dy: double) (dz: double)

definition dval :: "Vector3d_dbl \<Rightarrow> Vector3d" where
  "dval a = Vec3 (val (dx a)) (val (dy a)) (val (dz a))"

definition dvadd :: "Vector3d_dbl \<Rightarrow> Vector3d_dbl \<Rightarrow> Vector3d_dbl" where
  "dvadd a b = DVec3 (dbl_add (dx a) (dx b)) (dbl_add (dy a) (dy b)) (dbl_add (dz a) (dz b))"

definition dvsub :: "Vector3d_dbl \<Rightarrow> Vector3d_dbl \<Rightarrow> Vector3d_dbl" where
  "dvsub a b = DVec3 (dbl_sub (dx a) (dx b)) (dbl_sub (dy a) (dy b)) (dbl_sub (dz a) (dz b))"

definition dvscale :: "double \<Rightarrow> Vector3d_dbl \<Rightarrow> Vector3d_dbl" where
  "dvscale k a = DVec3 (dbl_mul k (dx a)) (dbl_mul k (dy a)) (dbl_mul k (dz a))"

record Isometry3d_dbl =
  dcol0 :: Vector3d_dbl
  dcol1 :: Vector3d_dbl
  dcol2 :: Vector3d_dbl
  dtranslation :: Vector3d_dbl

definition Identity_dbl :: Isometry3d_dbl where
  "Identity_dbl =
     \<lparr>dcol0 = DVec3 (Dbl 1 0) (Dbl 0 0) (Dbl 0 0), dcol1 = DVec3 (Dbl 0 0) (Dbl 1 0) (Dbl 0 0),
      dcol2 = DVec3 (Dbl 0 0) (Dbl 0 0) (Dbl 1 0),
      dtranslation = DVec3 (Dbl 0 0) (Dbl 0 0) (Dbl 0 0)\<rparr>"

text \<open>
  The matrix-vector product sums its three products from left to right. With the
  identity orientation of the slice centres all but one product of each sum is zero, so
  the order of the sum does not change the result.
\<close>

definition linear_apply_dbl :: "Isometry3d_dbl \<Rightarrow> Vector3d_dbl \<Rightarrow> Vector3d_dbl" where
  "linear_apply_dbl t a =
     dvadd (dvadd (dvscale (dx a) (dcol0 t)) (dvscale (dy a) (dcol1 t))) (dvscale (dz a) (dcol2 t))"

definition times_Translation3d_dbl :: "Isometry3d_dbl \<Rightarrow> Vector3d_dbl \<Rightarrow> Isometry3d_dbl" where
  "times_Translation3d_dbl t a =
     t\<lparr>dtranslation := dvadd (linear_apply_dbl t a) (dtranslation t)\<rparr>"

text \<open>
  The double nearest to 0.2 is \<open>0x1.999999999999ap-3\<close>, the one nearest to 0.1 is
  \<open>0x1.999999999999ap-4\<close>; 1.0 and 0.5 are doubles.
\<close>

definition CYL_RADIUS_dbl :: double where
  "CYL_RADIUS_dbl = Dbl 7205759403792794 (- 55)"

definition slice_height_dbl :: double where
  "slice_height_dbl = Dbl 7205759403792794 (- 56)"

definition origin_dbl :: Isometry3d_dbl where
  "origin_dbl = Identity_dbl\<lparr>dtranslation := DVec3 (Dbl 1 0) (Dbl 0 0) (Dbl 1 (- 1))\<rparr>"

definition slice_center_dbl :: "nat \<Rightarrow> Isometry3d_dbl" where
  "slice_center_dbl i =
     times_Translation3d_dbl origin_dbl
       (DVec3 (Dbl 0 0) (Dbl 0 0) (dbl_mul (dbl_of_nat i) slice_height_dbl))"

text \<open>
  \<open>pose.translation() - slice_center.translation()\<close> of line 125, where \<open>c\<close> and \<open>s\<close>
  are the doubles returned by \<open>std::cos(r)\<close> and \<open>std::sin(r)\<close>. At \<open>r = 0.0\<close> these are
  1.0 and 0.0 exactly.
\<close>

definition surface_offset_dbl :: "double \<Rightarrow> double \<Rightarrow> Isometry3d_dbl \<Rightarrow> Vector3d_dbl" where
  "surface_offset_dbl c s center =
     (let offset = DVec3 (dbl_mul CYL_RADIUS_dbl c) (dbl_mul CYL_RADIUS_dbl s) (Dbl 0 0);
          pose = times_Translation3d_dbl center offset
      in dvsub (dtranslation pose) (dtranslation center))"

section \<open>The optimisation problem: \<open>makeProblem\<close>\<close>

datatype TermType = TT_COST | TT_CNT

datatype InitType = STATIONARY

datatype Vector4d = Vec4 real real real real

record Quaterniond =
  qw :: real
  qx :: real
  qy :: real
  qz :: real

type_synonym Matrix3d = "Vector3d \<times> Vector3d \<times> Vector3d"

definition linear :: "Isometry3d \<Rightarrow> Matrix3d" where
  "linear p = (col0 p, col1 p, col2 p)"

text \<open>
  The lambda \<open>to_wxyz\<close> of \<open>makeProblem\<close>. The conversion of a rotation matrix to a
  quaternion is Eigen's constructor \<open>Quaterniond(Matrix3d)\<close>; it is the parameter
  \<open>quat\<close> here and in \<open>makeProblem\<close>.
\<close>

definition to_wxyz :: "(Matrix3d \<Rightarrow> Quaterniond) \<Rightarrow> Isometry3d \<Rightarrow> Vector4d" where
  "to_wxyz quat p = (let q = quat (linear p) in Vec4 (qw q) (qx q) (qy q) (qz q))"

text \<open>
  Modelled from the spec: \<open>trajopt::SafetyMarginData\<close>, with its functions
  \<open>SetPairSafetyMarginData\<close>, \<open>getPairSafetyMarginData\<close> and
  \<open>createSafetyMarginDataVector\<close>, is declared outside \<open>demo2.cpp\<close>. The spec describes
  it as a default safety margin and weight plus a set of overrides for named body pairs,
  where the key is the unordered pair of the body names and the value is the pair of
  margin and weight; a body pair without an override has the default. The vector holds
  one such object for every step.
\<close>

record SafetyMarginData =
  default_safety_margin_data :: "real \<times> real"
  pair_lookup_table :: "string set \<rightharpoonup> real \<times> real"

definition SetPairSafetyMarginData ::
  "string \<Rightarrow> string \<Rightarrow> real \<Rightarrow> real \<Rightarrow> SafetyMarginData \<Rightarrow> SafetyMarginData" where
  "SetPairSafetyMarginData obj1 obj2 safety_margin safety_margin_coeff d =
     d\<lparr>pair_lookup_table :=
         (pair_lookup_table d)({obj1, obj2} \<mapsto> (safety_margin, safety_margin_coeff))\<rparr>"

definition getPairSafetyMarginData ::
  "SafetyMarginData \<Rightarrow> string \<Rightarrow> string \<Rightarrow> real \<times> real" where
  "getPairSafetyMarginData d obj1 obj2 =
     (case pair_lookup_table d {obj1, obj2} of
        None \<Rightarrow> default_safety_margin_data d
      | Some x \<Rightarrow> x)"

definition createSafetyMarginDataVector :: "int \<Rightarrow> real \<Rightarrow> real \<Rightarrow> SafetyMarginData list" where
  "createSafetyMarginDataVector num_elements default_safety_margin default_safety_margin_coeff =
     replicate (nat num_elements)
       \<lparr>default_safety_margin_data = (default_safety_margin, default_safety_margin_coeff),
        pair_lookup_table = Map.empty\<rparr>"

text \<open>
  The cost and constraint terms, with the fields \<open>makeProblem\<close> assigns. The step
  fields are integers as in \<open>basic_info.n_steps - 1\<close>; their C++ types are declared
  outside \<open>demo2.cpp\<close>, so they are unbounded here.
\<close>

datatype TermInfo =
    JointVelCostInfo (name: string) (term_type: TermType) (coeffs: "real list")
  | JointAccCostInfo (name: string) (term_type: TermType) (coeffs: "real list")
  | CollisionCostInfo (name: string) (term_type: TermType) (continuous: bool)
      (first_step: int) (last_step: int) (gap: int) (info: "SafetyMarginData list")
  | StaticPoseCostInfo (name: string) (term_type: TermType) (link: string) (timestep: int)
      (xyz: Vector3d) (wxyz: Vector4d) (pos_coeffs: Vector3d) (rot_coeffs: Vector3d)

text \<open>
  The steps a term is restricted to. \<open>makeProblem\<close> gives the joint velocity and the
  joint acceleration term no first or last step: they range over the whole trajectory
  (\<open>None\<close>). The collision term carries its window, a pose term its single step.
\<close>

fun step_window :: "TermInfo \<Rightarrow> (int \<times> int) option" where
  "step_window (JointVelCostInfo n t c) = None"
| "step_window (JointAccCostInfo n t c) = None"
| "step_window (CollisionCostInfo n t c f l g i) = Some (f, l)"
| "step_window (StaticPoseCostInfo n t l s x w p r) = Some (s, s)"

record BasicKin =
  numJoints :: nat
  getName :: string

text \<open>
  The environment as \<open>makeProblem\<close> uses it: the lookup of a manipulator by name, which
  has no result for an unknown name, and the current joint values of a manipulator.
\<close>

record BasicEnv =
  getManipulator :: "string \<Rightarrow> BasicKin option"
  getCurrentJointValues :: "string \<Rightarrow> real list"

record BasicInfo =
  n_steps :: int
  manip :: string
  start_fixed :: bool

record InitInfo =
  type :: InitType
  data :: "real list list"

record ProblemConstructionInfo =
  basic_info :: BasicInfo
  kin :: BasicKin
  init_info :: InitInfo
  cost_infos :: "TermInfo list"
  cnt_infos :: "TermInfo list"

text \<open>
  \<open>makeProblem\<close> calls \<open>numJoints\<close> on the manipulator it looked up without a check;
  with no manipulator of that name no problem is built.
\<close>

datatype error = ResolutionError

text \<open>\<open>std::to_string\<close> on an unsigned integer: its decimal digits.\<close>

definition digit_char :: "nat \<Rightarrow> char" where
  "digit_char d = char_of (48 + d)"

function to_string :: "nat \<Rightarrow> string" where
  "to_string n = (if n < 10 then [digit_char n] else to_string (n div 10) @ [digit_char (n mod 10)])"
  by pat_completeness auto
termination
  by (relation "measure id") auto

declare to_string.simps [simp del]

text \<open>The body of the loop over the path: the constraint of waypoint \<open>i\<close>.\<close>

definition pose_term :: "(Matrix3d \<Rightarrow> Quaterniond) \<Rightarrow> Isometry3d list \<Rightarrow> nat \<Rightarrow> TermInfo" where
  "pose_term quat geometric_path i =
     StaticPoseCostInfo (''waypoint_cart_'' @ to_string i) TT_CNT ''sander_tcp'' (int i)
       (translation (geometric_path ! i)) (to_wxyz quat (geometric_path ! i))
       (Vec3 10 10 10) (Vec3 10 10 0)"

function populate_constraints ::
  "(Matrix3d \<Rightarrow> Quaterniond) \<Rightarrow> Isometry3d list \<Rightarrow> nat \<Rightarrow> TermInfo list \<Rightarrow> TermInfo list" where
  "populate_constraints quat geometric_path i cnts =
     (if i < length geometric_path
      then populate_constraints quat geometric_path (Suc i) (cnts @ [pose_term quat geometric_path i])
      else cnts)"
  by pat_completeness auto
termination
  by (relation "measure (\<lambda>(q, p, i, c). length p - i)") auto

declare populate_constraints.simps [simp del]

text \<open>The loop over \<open>collision->info\<close>: both overrides are set in every element.\<close>

definition apply_special_cost :: "SafetyMarginData \<Rightarrow> SafetyMarginData" where
  "apply_special_cost c =
     SetPairSafetyMarginData ''sander_shaft'' ''part'' 0.0 20.0
       (SetPairSafetyMarginData ''sander_disk'' ''part'' (- 0.01) 20.0 c)"

text \<open>
  \<open>makeProblem\<close>, up to the problem construction info it hands to
  \<open>trajopt::ConstructProblem\<close>.
\<close>

definition makeProblem ::
  "(Matrix3d \<Rightarrow> Quaterniond) \<Rightarrow> BasicEnv \<Rightarrow> Isometry3d list \<Rightarrow> error + ProblemConstructionInfo"
where
  "makeProblem quat env geometric_path =
     (let steps = int (length geometric_path) in
      case getManipulator env ''my_robot'' of
        None \<Rightarrow> Inl ResolutionError
      | Some k \<Rightarrow>
          let dof = numJoints k;
              start_pos = getCurrentJointValues env (getName k);
              jv = JointVelCostInfo ''joint_vel'' TT_COST (replicate dof 2.5);
              ja = JointAccCostInfo ''joint_acc'' TT_COST (replicate dof 5.0);
              collision = CollisionCostInfo ''collision'' TT_COST False 0 (steps - 1) 1
                (map apply_special_cost (createSafetyMarginDataVector steps 0.025 20))
          in Inr \<lparr>basic_info = \<lparr>n_steps = steps, manip = ''my_robot'', start_fixed = False\<rparr>,
                  kin = k,
                  init_info = \<lparr>type = STATIONARY, data = replicate (nat steps) start_pos\<rparr>,
                  cost_infos = [jv, ja, collision],
                  cnt_infos = populate_constraints quat geometric_path 0 []\<rparr>)"

section \<open>The trajectory export of \<open>main\<close>\<close>

text \<open>
  Modelled from the spec: the values of \<open>trajopt::OptStatus\<close> are declared outside
  \<open>demo2.cpp\<close>, which names \<open>OPT_CONVERGED\<close> only; the spec has the two states Converged
  and NotConverged.
\<close>

datatype OptStatus = OPT_CONVERGED | OPT_NOT_CONVERGED

text \<open>The solved trajectory: a matrix with one row per step and one column per joint.\<close>

record TrajArray =
  rows :: nat
  cols :: nat
  coeff :: "nat \<Rightarrow> nat \<Rightarrow> real"

record JointTrajectoryPoint =
  positions :: "real list"
  time_from_start :: real

record JointTrajectory =
  joint_names :: "string list"
  points :: "JointTrajectoryPoint list"

function positions_loop :: "TrajArray \<Rightarrow> nat \<Rightarrow> nat \<Rightarrow> real list \<Rightarrow> real list" where
  "positions_loop result i j ps =
     (if j < cols result then positions_loop result i (Suc j) (ps @ [coeff result i j]) else ps)"
  by pat_completeness auto
termination
  by (relation "measure (\<lambda>(r, i, j, ps). cols r - j)") auto

declare positions_loop.simps [simp del]

function points_loop ::
  "TrajArray \<Rightarrow> nat \<Rightarrow> JointTrajectoryPoint list \<Rightarrow> JointTrajectoryPoint list" where
  "points_loop result i pts =
     (if i < rows result
      then points_loop result (Suc i)
             (pts @ [\<lparr>positions = positions_loop result i 0 [], time_from_start = 1.0 * real i\<rparr>])
      else pts)"
  by pat_completeness auto
termination
  by (relation "measure (\<lambda>(r, i, pts). rows r - i)") auto

declare points_loop.simps [simp del]

text \<open>
  The part of \<open>main\<close> from the return of the optimizer to the filled trajectory: the
  warnings logged and the trajectory \<open>out\<close>. A status other than \<open>OPT_CONVERGED\<close> logs a
  warning and nothing else.
\<close>

definition export_trajectory ::
  "OptStatus \<Rightarrow> TrajArray \<Rightarrow> string list \<Rightarrow> string list \<times> JointTrajectory" where
  "export_trajectory opt_status result names =
     (if opt_status \<noteq> OPT_CONVERGED then [''Did not converge''] else [],
      \<lparr>joint_names = names, points = points_loop result 0 []\<rparr>)"

text \<open>The trajectory point of row \<open>i\<close>.\<close>

definition row_point :: "TrajArray \<Rightarrow> nat \<Rightarrow> JointTrajectoryPoint" where
  "row_point result i =
     \<lparr>positions = map (coeff result i) [0..<cols result], time_from_start = real i\<rparr>"

section \<open>Example inputs\<close>

text \<open>
  An environment with one manipulator of six joints, a quaternion conversion and a solved
  trajectory of two steps, at which the theorems below are instantiated.
\<close>

definition example_kin :: BasicKin where
  "example_kin = \<lparr>numJoints = 6, getName = ''my_robot''\<rparr>"

definition example_env :: BasicEnv where
  "example_env =
     \<lparr>getManipulator = (\<lambda>n. if n = ''my_robot'' then Some example_kin else None),
      getCurrentJointValues = (\<lambda>n. replicate 6 0)\<rparr>"

definition example_quat :: "Matrix3d \<Rightarrow> Quaterniond" where
  "example_quat m = \<lparr>qw = 1, qx = 0, qy = 0, qz = 0\<rparr>"

text \<open>
  A conversion of a rotation matrix to a quaternion by the formula for a matrix of trace
  above -1, and a path of two waypoints with different orientations: the identity, and
  the rotation that maps the x axis to the y axis, y to z and z to x.
\<close>

definition trace_quat :: "Matrix3d \<Rightarrow> Quaterniond" where
  "trace_quat m =
     (case m of (c0, c1, c2) \<Rightarrow>
        \<lparr>qw = sqrt (1 + vx c0 + vy c1 + vz c2) / 2,
         qx = (vz c1 - vy c2) / (2 * sqrt (1 + vx c0 + vy c1 + vz c2)),
         qy = (vx c2 - vz c0) / (2 * sqrt (1 + vx c0 + vy c1 + vz c2)),
         qz = (vy c0 - vx c1) / (2 * sqrt (1 + vx c0 + vy c1 + vz c2))\<rparr>)"

definition example_path :: "Isometry3d list" where
  "example_path =
     [origin,
      \<lparr>col0 = Vec3 0 1 0, col1 = Vec3 0 0 1, col2 = Vec3 1 0 0, translation = Vec3 0 2 3\<rparr>]"

definition example_result :: TrajArray where
  "example_result = \<lparr>rows = 2, cols = 1, coeff = (\<lambda>i j. real i / 2)\<rparr>"

section \<open>The angular scan\<close>

text \<open>
  The constants of the loop, and the accuracy of the step: \<open>angle_step\<close> is within half
  a unit in the last place of the twelfth of \<open>M_PI\<close>, and the bound is exactly twice
  \<open>M_PI\<close>.
\<close>

lemma angle_step_value: "angle_step = Dbl 4716158501352293 (- 54)"
  by code_simp

lemma angle_bound_value: "angle_bound = Dbl 7074237752028440 (- 50)"
  by code_simp

lemma angle_step_nearest: "\<bar>12 * val angle_step - val M_PI\<bar> * 2 < 12 / 2 ^ 54"
  by (simp add: angle_step_value M_PI_def val_def)

lemma angle_bound_exact: "val angle_bound = 2 * val M_PI"
  by (simp add: angle_bound_value M_PI_def val_def)

text \<open>
  The accumulator takes 25 values that pass the test \<open>r <= 2 * M_PI\<close>; the last of
  them, \<open>0x1.921fb54442d16p+2\<close>, is two units in the last place below the bound, and
  the 26th value fails the test.
\<close>

lemma sample_angles_values:
  "sample_angles =
     [Dbl 0 0, Dbl 4716158501352293 (- 54), Dbl 4716158501352293 (- 53),
      Dbl 7074237752028440 (- 53), Dbl 4716158501352293 (- 52),
      Dbl 5895198126690366 (- 52), Dbl 7074237752028439 (- 52),
      Dbl 8253277377366512 (- 52), Dbl 4716158501352293 (- 51),
      Dbl 5305678314021330 (- 51), Dbl 5895198126690367 (- 51),
      Dbl 6484717939359404 (- 51), Dbl 7074237752028441 (- 51),
      Dbl 7663757564697478 (- 51), Dbl 8253277377366515 (- 51),
      Dbl 8842797190035552 (- 51), Dbl 4716158501352294 (- 50),
      Dbl 5010918407686812 (- 50), Dbl 5305678314021330 (- 50),
      Dbl 5600438220355848 (- 50), Dbl 5895198126690366 (- 50),
      Dbl 6189958033024884 (- 50), Dbl 6484717939359402 (- 50),
      Dbl 6779477845693920 (- 50), Dbl 7074237752028438 (- 50)]"
  unfolding sample_angles_def by code_simp

text \<open>Every value of the accumulator is the rounded sum of its predecessor and the step.\<close>

lemma accumulator_rounding:
  "list_all2 nearest_sum (butlast sample_angles) (tl sample_angles)"
  by (simp add: sample_angles_values nearest_sum_def angle_step_value val_def)

lemma sample_angles_le: "list_all (\<lambda>a. dbl_le a angle_bound) sample_angles"
  unfolding sample_angles_def by code_simp

lemma sample_angles_stop: "\<not> dbl_le (angle_after 25 (Dbl 0 0)) angle_bound"
  by code_simp

lemma angle_after_25: "angle_after 25 (Dbl 0 0) = Dbl 7368997658362956 (- 50)"
  by code_simp

lemma sample_angles_last: "last sample_angles = Dbl 7074237752028438 (- 50)"
  by (simp add: sample_angles_values)

lemma last_angle_le: "dbl_le (Dbl 7074237752028438 (- 50)) angle_bound"
  by code_simp

lemma length_angle_seq: "length (angle_seq n r) = n"
  by (induction n arbitrary: r) simp_all

lemma length_sample_angles: "length sample_angles = 25"
  by (simp add: sample_angles_def length_angle_seq)

lemma sample_angles_Cons: "sample_angles = Dbl 0 0 # tl sample_angles"
  by (simp add: sample_angles_values)

lemma val_zero: "val (Dbl 0 0) = 0"
  by (simp add: val_def)

text \<open>
  The loop returns once the accumulator fails the test, with one pose for every value
  that passed it.
\<close>

lemma angular_scan_seq:
  "list_all (\<lambda>a. dbl_le a angle_bound) (angle_seq n r) \<Longrightarrow>
   \<not> dbl_le (angle_after n r) angle_bound \<Longrightarrow>
   angular_scan c r v = Some (v @ map (make_pose c) (angle_seq n r))"
proof (induction n arbitrary: r v)
  case 0
  then show ?case by (subst angular_scan.simps) simp
next
  case (Suc n)
  from Suc.prems have le: "dbl_le r angle_bound"
    and rest: "list_all (\<lambda>a. dbl_le a angle_bound) (angle_seq n (dbl_add r angle_step))"
    and stop: "\<not> dbl_le (angle_after n (dbl_add r angle_step)) angle_bound"
    by simp_all
  have "angular_scan c r v = angular_scan c (dbl_add r angle_step) (v @ [make_pose c r])"
    using le by (subst angular_scan.simps) simp
  also have "\<dots> = Some ((v @ [make_pose c r])
                      @ map (make_pose c) (angle_seq n (dbl_add r angle_step)))"
    by (rule Suc.IH [OF rest stop])
  finally show ?case by simp
qed

lemma angular_scan_slice:
  "angular_scan c (Dbl 0 0) v = Some (v @ map (make_pose c) sample_angles)"
  unfolding sample_angles_def
  using sample_angles_le sample_angles_stop
  by (intro angular_scan_seq) (simp_all add: sample_angles_def)

lemma slice_loop_eq:
  "slice_loop i v = Some (v @ concat (map slice_poses [i..<n_slices]))"
proof (induction i v rule: slice_loop.induct)
  case (1 i v)
  show ?case
  proof (cases "i < n_slices")
    case True
    have scan: "angular_scan (slice_center i) (Dbl 0 0) v = Some (v @ slice_poses i)"
      by (simp add: angular_scan_slice slice_poses_def)
    have "slice_loop i v = slice_loop (Suc i) (v @ slice_poses i)"
      using True scan by (subst slice_loop.simps) simp
    also have "\<dots> = Some ((v @ slice_poses i) @ concat (map slice_poses [Suc i..<n_slices]))"
      by (rule "1.IH" [OF True scan])
    finally show ?thesis using True by (simp add: upt_conv_Cons)
  next
    case False
    then show ?thesis by (subst slice_loop.simps) simp
  qed
qed

lemma makePath_eq: "makePath = Some (concat (map slice_poses [0..<n_slices]))"
  by (simp add: makePath_def slice_loop_eq)

lemma length_slice_poses: "length (slice_poses i) = 25"
  by (simp add: slice_poses_def length_sample_angles)

lemma length_concat_slices: "length (concat (map slice_poses [0..<n])) = n * 25"
  by (induction n) (simp_all add: length_slice_poses)

lemma nth_concat_slices:
  "i < n \<Longrightarrow> k < 25 \<Longrightarrow>
   concat (map slice_poses [0..<n]) ! (i * 25 + k) = make_pose (slice_center i) (sample_angles ! k)"
proof (induction n)
  case 0
  then show ?case by simp
next
  case (Suc n)
  show ?case
  proof (cases "i < n")
    case True
    then have "i * 25 + k < n * 25" using Suc.prems(2) by arith
    then show ?thesis using Suc.IH [OF True Suc.prems(2)]
      by (simp add: nth_append length_concat_slices)
  next
    case False
    then have "i = n" using Suc.prems(1) by simp
    then show ?thesis using Suc.prems(2)
      by (simp add: nth_append length_concat_slices) (simp add: slice_poses_def length_sample_angles)
  qed
qed

lemma set_concat_slices:
  "p \<in> set (concat (map slice_poses [0..<n])) \<Longrightarrow> \<exists>i r. p = make_pose (slice_center i) r"
  by (auto simp: slice_poses_def)

lemma path_frames:
  assumes "makePath = Some path" and "p \<in> set path"
  shows "\<exists>i r. p = make_pose (slice_center i) r"
proof -
  have "path = concat (map slice_poses [0..<n_slices])"
    using assms(1) by (simp add: makePath_eq)
  then show ?thesis using assms(2) set_concat_slices by simp
qed

lemma path_nth:
  assumes "makePath = Some path" and "i < n_slices" and "k < 25"
  shows "path ! (i * 25 + k) = make_pose (slice_center i) (sample_angles ! k)"
proof -
  have "path = concat (map slice_poses [0..<n_slices])"
    using assms(1) by (simp add: makePath_eq)
  then show ?thesis using nth_concat_slices [OF assms(2,3)] by simp
qed

lemma path_has_125_frames:
  assumes "makePath = Some path"
  shows "length path = 125"
proof -
  have "path = concat (map slice_poses [0..<n_slices])"
    using assms(1) by (simp add: makePath_eq)
  then have "length path = n_slices * 25" by (simp only: length_concat_slices)
  then show ?thesis by (simp add: n_slices_def)
qed

lemma first_pose_in_path:
  "make_pose (slice_center 0) (Dbl 0 0) \<in> set (concat (map slice_poses [0..<n_slices]))"
proof -
  have "make_pose (slice_center 0) (Dbl 0 0) \<in> set (slice_poses 0)"
    by (subst sample_angles_Cons [THEN arg_cong, of "map (make_pose (slice_center 0))",
          folded slice_poses_def]) simp
  then show ?thesis by (simp add: n_slices_def upt_conv_Cons)
qed

section \<open>The frame of one sample\<close>

lemma slice_center_eq:
  "slice_center i = \<lparr>col0 = Vec3 1 0 0, col1 = Vec3 0 1 0, col2 = Vec3 0 0 1,
                      translation = Vec3 1 0 (real i * slice_height + 0.5)\<rparr>"
  by (simp add: slice_center_def times_Translation3d_def linear_apply_def origin_def
      Identity_def vadd_def vscale_def)

lemma normalized_vscale:
  assumes "0 < k" and "squaredNorm u = 1"
  shows "normalized (vscale k u) = u"
proof -
  have sq: "squaredNorm (vscale k u) = k\<^sup>2"
  proof -
    have "squaredNorm (vscale k u) = k\<^sup>2 * squaredNorm u"
      by (simp add: squaredNorm_def dot_def vscale_def power2_eq_square algebra_simps)
    then show ?thesis using assms(2) by simp
  qed
  have "sqrt (k\<^sup>2) = k" using assms(1) by simp
  then show ?thesis using assms(1) sq
    by (cases u) (simp add: normalized_def vscale_def)
qed

lemma normalized_unit: "squaredNorm u = 1 \<Longrightarrow> normalized u = u"
  by (cases u) (simp add: normalized_def vscale_def)

lemma cos_sin_scaled: "k * (cos a * cos a) + k * (sin a * sin a) = (k::real)"
proof -
  have one: "cos a * cos a + sin a * sin a = 1" by (simp flip: power2_eq_square)
  have "k * (cos a * cos a) + k * (sin a * sin a) = k * (cos a * cos a + sin a * sin a)"
    by (simp only: distrib_left)
  also have "\<dots> = k" by (simp only: one mult_1_right)
  finally show ?thesis .
qed

text \<open>
  The pose of slice \<open>i\<close> at the angle \<open>r\<close> in closed form: the offset from the slice
  centre has length \<open>radius\<close>, so the z axis is the negated unit vector of the angle, and
  the cross product of the y and the z axis is the unit vector along the cylinder.
\<close>

lemma make_pose_slice:
  "make_pose (slice_center i) r =
     \<lparr>col0 = Vec3 0 0 1,
      col1 = Vec3 (- sin (val r)) (cos (val r)) 0,
      col2 = Vec3 (- cos (val r)) (- sin (val r)) 0,
      translation = Vec3 (radius * cos (val r) + 1) (radius * sin (val r))
                      (real i * slice_height + 0.5)\<rparr>"
proof -
  let ?u = "Vec3 (cos (val r)) (sin (val r)) 0"
  let ?y = "Vec3 (- sin (val r)) (cos (val r)) 0"
  have u: "squaredNorm ?u = 1" by (simp add: squaredNorm_def dot_def flip: power2_eq_square)
  have y: "squaredNorm ?y = 1" by (simp add: squaredNorm_def dot_def flip: power2_eq_square)
  have x: "squaredNorm (Vec3 0 0 1) = 1" by (simp add: squaredNorm_def dot_def)
  have rad: "0 < radius" by (simp add: radius_def CYL_RADIUS_def)
  have off: "Vec3 (radius * cos (val r)) (radius * sin (val r)) 0 = vscale radius ?u"
    by (simp add: vscale_def)
  have d: "vsub (translation (times_Translation3d (slice_center i) (vscale radius ?u)))
             (translation (slice_center i)) = vscale radius ?u"
    by (simp add: slice_center_eq times_Translation3d_def linear_apply_def vadd_def vscale_def
        vsub_def)
  have z: "vneg (normalized (vscale radius ?u)) = Vec3 (- cos (val r)) (- sin (val r)) 0"
    by (simp add: normalized_vscale [OF rad u] vneg_def)
  have c: "cross ?y (Vec3 (- cos (val r)) (- sin (val r)) 0) = Vec3 0 0 1"
    by (simp add: cross_def flip: power2_eq_square)
  have y0: "Vec3 (- sin (val r)) (cos (val r)) 0.0 = ?y" by simp
  show ?thesis
    unfolding make_pose_def Let_def y0 off d z normalized_unit [OF y] c normalized_unit [OF x]
    by (simp add: slice_center_eq times_Translation3d_def linear_apply_def vadd_def vscale_def)
qed

lemma pose_orthonormal: "orthonormal_within 0 (make_pose (slice_center i) r)"
  by (simp add: make_pose_slice orthonormal_within_def dot_def norm3_def squaredNorm_def
      flip: power2_eq_square)

lemma orthonormal_within_mono:
  "orthonormal_within e p \<Longrightarrow> e \<le> e' \<Longrightarrow> orthonormal_within e' p"
  by (auto simp: orthonormal_within_def)

section \<open>The length of the tool path\<close>

text \<open>
  Claim C1 states that the path has 5 * 24 = 120 waypoints and that the sample at 0 is
  not taken again at the end of the revolution. The loop of the source tests
  \<open>r <= 2 * M_PI\<close> on the accumulator, and the value after 24 increments passes the
  test: \<open>makePath\<close> returns 125 waypoints, not 120.
\<close>

theorem makePath_sample_count_counterexample:
  "map_option length makePath = Some 125 \<and> map_option length makePath \<noteq> Some (5 * 24)"
  using path_has_125_frames [OF makePath_eq] by (simp add: makePath_eq)

text \<open>
  Claim C1, as amended: \<open>makePath\<close> returns a path whose length is the number of slices
  times the number of samples of a revolution; the samples are the values of the double
  accumulator that starts at 0.0, grows by \<open>M_PI / 12.0\<close> and is tested by
  \<open>r <= 2 * M_PI\<close>. There are 25 of them, from 0.0 to \<open>0x1.921fb54442d16p+2\<close>, which
  passes the inclusive test, so the path has 5 * 25 = 125 waypoints.
\<close>

theorem makePath_sample_count:
  "\<exists>path. makePath = Some path \<and> length path = n_slices * length sample_angles \<and>
     length sample_angles = 25 \<and> length path = 125 \<and>
     hd sample_angles = Dbl 0 0 \<and> last sample_angles = Dbl 7074237752028438 (- 50) \<and>
     dbl_le (last sample_angles) angle_bound"
proof -
  have "length (concat (map slice_poses [0..<n_slices])) = n_slices * 25"
    by (simp only: length_concat_slices)
  then show ?thesis
    by (simp add: makePath_eq length_sample_angles sample_angles_last last_angle_le
        sample_angles_Cons [THEN arg_cong, of hd] n_slices_def)
qed

section \<open>The frames of the tool path\<close>

text \<open>
  Claim C4: in every frame of the path of \<open>makePath\<close>, the three axes written into the
  pose are pairwise orthogonal, each dot product within 1e-9 of 0, and of unit length,
  each norm within 1e-9 of 1. (Over the reals the dot products are 0 and the norms 1.)
\<close>

theorem frames_orthonormal:
  "makePath = Some path \<Longrightarrow> p \<in> set path \<Longrightarrow> orthonormal_within (1 / 10 ^ 9) p"
proof -
  assume "makePath = Some path" and "p \<in> set path"
  then obtain i r where "p = make_pose (slice_center i) r"
    using path_frames by blast
  then show ?thesis
    using orthonormal_within_mono [OF pose_orthonormal, of "1 / 10 ^ 9" i r] by simp
qed

theorem frames_orthonormal_witness:
  "makePath = Some (concat (map slice_poses [0..<n_slices])) \<and>
   make_pose (slice_center 0) (Dbl 0 0) \<in> set (concat (map slice_poses [0..<n_slices])) \<and>
   orthonormal_within (1 / 10 ^ 9) (make_pose (slice_center 0) (Dbl 0 0))"
  using frames_orthonormal [OF makePath_eq first_pose_in_path] makePath_eq first_pose_in_path
  by simp

text \<open>
  Claim C5: in the frame of every slice \<open>i\<close> and every angular sample \<open>k\<close> (the frame
  at position \<open>i * 25 + k\<close> of the path), the z axis points from the surface sample to
  the centre of its slice: its dot product with the vector from the frame's position to
  the slice centre is positive.
\<close>

theorem z_axis_inward:
  "makePath = Some path \<Longrightarrow> i < n_slices \<Longrightarrow> k < length sample_angles \<Longrightarrow>
   0 < dot (col2 (path ! (i * length sample_angles + k)))
           (vsub (translation (slice_center i))
                 (translation (path ! (i * length sample_angles + k))))"
proof -
  assume p: "makePath = Some path" and i: "i < n_slices" and k: "k < length sample_angles"
  have eq: "path ! (i * length sample_angles + k)
              = make_pose (slice_center i) (sample_angles ! k)"
    using path_nth [OF p i, of k] k by (simp add: length_sample_angles)
  have d: "dot (col2 (make_pose (slice_center i) r))
             (vsub (translation (slice_center i)) (translation (make_pose (slice_center i) r)))
           = radius" for r
    unfolding make_pose_slice
    by (simp add: slice_center_eq dot_def vsub_def algebra_simps cos_sin_scaled)
  have "0 < radius" by (simp add: radius_def CYL_RADIUS_def)
  then show ?thesis unfolding eq d .
qed

theorem z_axis_inward_witness:
  "makePath = Some (concat (map slice_poses [0..<n_slices])) \<and> 4 < n_slices \<and>
   24 < length sample_angles \<and>
   0 < dot (col2 (concat (map slice_poses [0..<n_slices]) ! (4 * length sample_angles + 24)))
           (vsub (translation (slice_center 4))
                 (translation
                    (concat (map slice_poses [0..<n_slices]) ! (4 * length sample_angles + 24))))"
proof -
  have i: "4 < n_slices" by (simp add: n_slices_def)
  have k: "24 < length sample_angles" by (simp add: length_sample_angles)
  show ?thesis using z_axis_inward [OF makePath_eq i k] makePath_eq i k by blast
qed

lemma CYL_RADIUS_dbl_nearest:
  "2 ^ 52 \<le> mant CYL_RADIUS_dbl \<and> mant CYL_RADIUS_dbl < 2 ^ 53 \<and>
   \<bar>val CYL_RADIUS_dbl - CYL_RADIUS\<bar> * 2 \<le> val (Dbl 1 (expo CYL_RADIUS_dbl))"
  by (simp add: CYL_RADIUS_dbl_def CYL_RADIUS_def val_def)

lemma slice_height_dbl_nearest:
  "2 ^ 52 \<le> mant slice_height_dbl \<and> mant slice_height_dbl < 2 ^ 53 \<and>
   \<bar>val slice_height_dbl - slice_height\<bar> * 2 \<le> val (Dbl 1 (expo slice_height_dbl))"
  by (simp add: slice_height_dbl_def slice_height_def val_def)

text \<open>
  In doubles the first sample lies at \<open>(1.0 + 0.2) - 1.0 = 0x1.9999999999998p-3\<close> from
  its slice centre in x, which is not 0.2, and at 0 in y and z.
\<close>

lemma first_offset_dbl:
  "surface_offset_dbl (Dbl 1 0) (Dbl 0 0) (slice_center_dbl 0) =
     DVec3 (Dbl 900719925474099 (- 52)) (Dbl 0 (- 56)) (Dbl 0 (- 53))"
  by code_simp

lemma first_offset_dbl_val:
  "dval (surface_offset_dbl (Dbl 1 0) (Dbl 0 0) (slice_center_dbl 0)) =
     Vec3 (900719925474099 / 2 ^ 52) 0 0"
  by (simp add: first_offset_dbl dval_def val_def)

lemma first_offset_dbl_within:
  "vec_within (1 / 10 ^ 9) (Vec3 (900719925474099 / 2 ^ 52) 0 0) (Vec3 0.2 0 0)"
  by (simp add: vec_within_def)

lemma first_offset_dbl_inexact: "(900719925474099 / 2 ^ 52 :: real) \<noteq> 0.2"
  by simp

lemma vec_within_refl: "0 \<le> eps \<Longrightarrow> vec_within eps a a"
  by (simp add: vec_within_def)

text \<open>
  Claim C8: for radius 0.2, slice height 0.1, 5 slices and the angular step pi/12, the
  first waypoint of \<open>makePath\<close> is the one of slice 0 at the angle 0.0; its offset from
  the centre of its slice is (0.2, 0, 0) and its z axis is (-1, 0, 0), each coordinate
  within the tolerance 1e-9. The offset is within this tolerance both by the formulas of
  the source and as its doubles compute it, where it is
  \<open>(0x1.9999999999998p-3, 0, 0)\<close>.
\<close>

theorem first_waypoint:
  "makePath = Some path \<Longrightarrow>
   path \<noteq> [] \<and> path ! 0 = make_pose (slice_center 0) (Dbl 0 0) \<and>
   vec_within (1 / 10 ^ 9)
     (vsub (translation (path ! 0)) (translation (slice_center 0))) (Vec3 0.2 0 0) \<and>
   vec_within (1 / 10 ^ 9) (col2 (path ! 0)) (Vec3 (- 1) 0 0) \<and>
   dval (surface_offset_dbl (Dbl 1 0) (Dbl 0 0) (slice_center_dbl 0))
     = Vec3 (900719925474099 / 2 ^ 52) 0 0 \<and>
   vec_within (1 / 10 ^ 9)
     (dval (surface_offset_dbl (Dbl 1 0) (Dbl 0 0) (slice_center_dbl 0))) (Vec3 0.2 0 0)"
proof -
  assume p: "makePath = Some path"
  have "path ! (0 * 25 + 0) = make_pose (slice_center 0) (sample_angles ! 0)"
    using path_nth [OF p, of 0 0] by (simp add: n_slices_def)
  then have first: "path ! 0 = make_pose (slice_center 0) (Dbl 0 0)"
    by (simp add: sample_angles_values)
  have "length path = 125" by (rule path_has_125_frames [OF p])
  then have ne: "path \<noteq> []" by auto
  have off: "vsub (translation (make_pose (slice_center 0) (Dbl 0 0)))
               (translation (slice_center 0)) = Vec3 0.2 0 0"
    unfolding make_pose_slice
    by (simp add: slice_center_eq val_zero vsub_def radius_def CYL_RADIUS_def)
  have z: "col2 (make_pose (slice_center 0) (Dbl 0 0)) = Vec3 (- 1) 0 0"
    unfolding make_pose_slice by (simp add: val_zero)
  have eps: "(0::real) \<le> 1 / 10 ^ 9" by simp
  show ?thesis
    unfolding first off z first_offset_dbl_val
    using ne vec_within_refl [OF eps] first_offset_dbl_within by simp
qed

theorem first_waypoint_witness:
  "makePath = Some (concat (map slice_poses [0..<n_slices])) \<and>
   (concat (map slice_poses [0..<n_slices]) \<noteq> [] \<and>
    concat (map slice_poses [0..<n_slices]) ! 0 = make_pose (slice_center 0) (Dbl 0 0) \<and>
    vec_within (1 / 10 ^ 9)
      (vsub (translation (concat (map slice_poses [0..<n_slices]) ! 0))
         (translation (slice_center 0))) (Vec3 0.2 0 0) \<and>
    vec_within (1 / 10 ^ 9) (col2 (concat (map slice_poses [0..<n_slices]) ! 0))
      (Vec3 (- 1) 0 0) \<and>
    dval (surface_offset_dbl (Dbl 1 0) (Dbl 0 0) (slice_center_dbl 0))
      = Vec3 (900719925474099 / 2 ^ 52) 0 0 \<and>
    vec_within (1 / 10 ^ 9)
      (dval (surface_offset_dbl (Dbl 1 0) (Dbl 0 0) (slice_center_dbl 0))) (Vec3 0.2 0 0))"
  by (rule conjI [OF makePath_eq first_waypoint [OF makePath_eq]])

text \<open>
  Claim C10: in every frame of the path of \<open>makePath\<close>, whatever the slice and the
  angular sample, the x axis written into the pose is (0, 0, 1), the direction of the
  axis of the cylinder.
\<close>

theorem x_axis_along_cylinder:
  "makePath = Some path \<Longrightarrow> p \<in> set path \<Longrightarrow> col0 p = Vec3 0 0 1"
proof -
  assume "makePath = Some path" and "p \<in> set path"
  then obtain i r where "p = make_pose (slice_center i) r"
    using path_frames by blast
  then show ?thesis by (simp add: make_pose_slice)
qed

theorem x_axis_along_cylinder_witness:
  "makePath = Some (concat (map slice_poses [0..<n_slices])) \<and>
   make_pose (slice_center 0) (Dbl 0 0) \<in> set (concat (map slice_poses [0..<n_slices])) \<and>
   col0 (make_pose (slice_center 0) (Dbl 0 0)) = Vec3 0 0 1"
  using x_axis_along_cylinder [OF makePath_eq first_pose_in_path] makePath_eq first_pose_in_path
  by simp

section \<open>The problem construction info\<close>

lemma populate_constraints_eq:
  "populate_constraints quat path i cnts = cnts @ map (pose_term quat path) [i..<length path]"
proof (induction quat path i cnts rule: populate_constraints.induct)
  case (1 quat path i cnts)
  show ?case
  proof (cases "i < length path")
    case True
    then show ?thesis
      using "1.IH" [OF True] by (subst populate_constraints.simps) (simp add: upt_conv_Cons)
  next
    case False
    then show ?thesis by (subst populate_constraints.simps) simp
  qed
qed

lemma map_int_upt: "map int [0..<n] = [0..int n - 1]"
proof (induction n)
  case 0
  then show ?case by simp
next
  case (Suc n)
  have "[0..int (Suc n) - 1] = [0..int n - 1] @ [int n]"
    using upto_rec2 [of 0 "int n"] by simp
  then show ?case using Suc by simp
qed

text \<open>With a manipulator of the name \<open>my_robot\<close>, \<open>makeProblem\<close> builds this info.\<close>

lemma makeProblem_Some:
  "getManipulator env ''my_robot'' = Some k \<Longrightarrow>
   makeProblem quat env path =
     Inr \<lparr>basic_info = \<lparr>n_steps = int (length path), manip = ''my_robot'', start_fixed = False\<rparr>,
          kin = k,
          init_info = \<lparr>type = STATIONARY,
                       data = replicate (length path) (getCurrentJointValues env (getName k))\<rparr>,
          cost_infos =
            [JointVelCostInfo ''joint_vel'' TT_COST (replicate (numJoints k) 2.5),
             JointAccCostInfo ''joint_acc'' TT_COST (replicate (numJoints k) 5.0),
             CollisionCostInfo ''collision'' TT_COST False 0 (int (length path) - 1) 1
               (replicate (length path)
                  (apply_special_cost
                     \<lparr>default_safety_margin_data = (0.025, 20),
                      pair_lookup_table = Map.empty\<rparr>))],
          cnt_infos = map (pose_term quat path) [0..<length path]\<rparr>"
  by (simp add: makeProblem_def Let_def populate_constraints_eq createSafetyMarginDataVector_def)

lemma makeProblem_None:
  "getManipulator env ''my_robot'' = None \<Longrightarrow> makeProblem quat env path = Inl ResolutionError"
  by (simp add: makeProblem_def)

lemma example_manipulator: "getManipulator example_env ''my_robot'' = Some example_kin"
  by (simp add: example_env_def)

lemma special_cost_disk:
  "getPairSafetyMarginData
     (apply_special_cost \<lparr>default_safety_margin_data = dflt, pair_lookup_table = Map.empty\<rparr>)
     ''sander_disk'' ''part'' = (- 0.01, 20)"
  by (simp add: apply_special_cost_def SetPairSafetyMarginData_def getPairSafetyMarginData_def
      doubleton_eq_iff)

lemma special_cost_shaft:
  "getPairSafetyMarginData
     (apply_special_cost \<lparr>default_safety_margin_data = dflt, pair_lookup_table = Map.empty\<rparr>)
     ''sander_shaft'' ''part'' = (0, 20)"
  by (simp add: apply_special_cost_def SetPairSafetyMarginData_def getPairSafetyMarginData_def)

lemma special_cost_other:
  "{a, b} \<noteq> {''sander_disk'', ''part''} \<Longrightarrow> {a, b} \<noteq> {''sander_shaft'', ''part''} \<Longrightarrow>
   getPairSafetyMarginData
     (apply_special_cost \<lparr>default_safety_margin_data = dflt, pair_lookup_table = Map.empty\<rparr>)
     a b = dflt"
  by (simp add: apply_special_cost_def SetPairSafetyMarginData_def getPairSafetyMarginData_def)

lemma getPair_commute: "getPairSafetyMarginData d a b = getPairSafetyMarginData d b a"
  by (simp add: getPairSafetyMarginData_def insert_commute)

lemma to_string_0: "to_string 0 = ''0''"
  by code_simp

lemma to_string_1: "to_string (Suc 0) = ''1''"
  by code_simp

text \<open>
  Claim C2: \<open>makeProblem\<close> adds exactly one pose constraint for every entry of the tool
  path, so there are as many constraints as waypoints; their steps are 0, 1, ...,
  \<open>n_steps - 1\<close> in this order; the constraint of waypoint \<open>i\<close> is on the link
  \<open>sander_tcp\<close>, with the position of the waypoint, with its orientation (the components
  w, x, y, z of the quaternion of the rotation matrix of the waypoint), with the position
  weights (10, 10, 10) and the orientation weights (10, 10, 0).
\<close>

theorem constraints_per_waypoint:
  "getManipulator env ''my_robot'' = Some k \<Longrightarrow>
   \<exists>pci. makeProblem quat env path = Inr pci \<and>
     length (cnt_infos pci) = length path \<and>
     n_steps (basic_info pci) = int (length path) \<and>
     map timestep (cnt_infos pci) = [0..n_steps (basic_info pci) - 1] \<and>
     (\<forall>i<length path.
        cnt_infos pci ! i =
          StaticPoseCostInfo (''waypoint_cart_'' @ to_string i) TT_CNT ''sander_tcp'' (int i)
            (translation (path ! i))
            (Vec4 (qw (quat (col0 (path ! i), col1 (path ! i), col2 (path ! i))))
                  (qx (quat (col0 (path ! i), col1 (path ! i), col2 (path ! i))))
                  (qy (quat (col0 (path ! i), col1 (path ! i), col2 (path ! i))))
                  (qz (quat (col0 (path ! i), col1 (path ! i), col2 (path ! i)))))
            (Vec3 10 10 10) (Vec3 10 10 0))"
proof -
  assume k: "getManipulator env ''my_robot'' = Some k"
  have "map timestep (map (pose_term quat path) [0..<length path]) = map int [0..<length path]"
    by (simp add: pose_term_def comp_def)
  then show ?thesis
    by (simp add: makeProblem_Some [OF k] map_int_upt)
       (simp add: pose_term_def to_wxyz_def linear_def Let_def)
qed

text \<open>
  At the example path: the two constraints, with the quaternion (1, 0, 0, 0) of the
  identity for the first waypoint and (1/2, 1/2, 1/2, 1/2) for the second.
\<close>

theorem constraints_per_waypoint_witness:
  "getManipulator example_env ''my_robot'' = Some example_kin \<and>
   (\<exists>pci. makeProblem trace_quat example_env example_path = Inr pci \<and>
      cnt_infos pci =
        [StaticPoseCostInfo ''waypoint_cart_0'' TT_CNT ''sander_tcp'' 0 (Vec3 1 0 (1 / 2))
           (Vec4 1 0 0 0) (Vec3 10 10 10) (Vec3 10 10 0),
         StaticPoseCostInfo ''waypoint_cart_1'' TT_CNT ''sander_tcp'' 1 (Vec3 0 2 3)
           (Vec4 (1 / 2) (1 / 2) (1 / 2) (1 / 2)) (Vec3 10 10 10) (Vec3 10 10 0)] \<and>
      map timestep (cnt_infos pci) = [0, 1] \<and>
      n_steps (basic_info pci) = 2)"
proof -
  obtain pci where p: "makeProblem trace_quat example_env example_path = Inr pci"
    and len: "length (cnt_infos pci) = length example_path"
    and steps: "n_steps (basic_info pci) = int (length example_path)"
    and nth: "\<forall>i<length example_path.
        cnt_infos pci ! i =
          StaticPoseCostInfo (''waypoint_cart_'' @ to_string i) TT_CNT ''sander_tcp'' (int i)
            (translation (example_path ! i))
            (Vec4 (qw (trace_quat (col0 (example_path ! i), col1 (example_path ! i),
                                   col2 (example_path ! i))))
                  (qx (trace_quat (col0 (example_path ! i), col1 (example_path ! i),
                                   col2 (example_path ! i))))
                  (qy (trace_quat (col0 (example_path ! i), col1 (example_path ! i),
                                   col2 (example_path ! i))))
                  (qz (trace_quat (col0 (example_path ! i), col1 (example_path ! i),
                                   col2 (example_path ! i)))))
            (Vec3 10 10 10) (Vec3 10 10 0)"
    using constraints_per_waypoint [OF example_manipulator, of trace_quat example_path]
    by blast
  have l2: "length (cnt_infos pci) = 2" using len by (simp add: example_path_def)
  have n0: "cnt_infos pci ! 0 =
        StaticPoseCostInfo ''waypoint_cart_0'' TT_CNT ''sander_tcp'' 0 (Vec3 1 0 (1 / 2))
           (Vec4 1 0 0 0) (Vec3 10 10 10) (Vec3 10 10 0)"
    using nth [rule_format, of 0]
    by (simp add: example_path_def trace_quat_def origin_def Identity_def to_string_0)
  have n1: "cnt_infos pci ! 1 =
        StaticPoseCostInfo ''waypoint_cart_1'' TT_CNT ''sander_tcp'' 1 (Vec3 0 2 3)
           (Vec4 (1 / 2) (1 / 2) (1 / 2) (1 / 2)) (Vec3 10 10 10) (Vec3 10 10 0)"
    using nth [rule_format, of 1]
    by (simp add: example_path_def trace_quat_def to_string_1)
  have eq: "cnt_infos pci =
        [StaticPoseCostInfo ''waypoint_cart_0'' TT_CNT ''sander_tcp'' 0 (Vec3 1 0 (1 / 2))
           (Vec4 1 0 0 0) (Vec3 10 10 10) (Vec3 10 10 0),
         StaticPoseCostInfo ''waypoint_cart_1'' TT_CNT ''sander_tcp'' 1 (Vec3 0 2 3)
           (Vec4 (1 / 2) (1 / 2) (1 / 2) (1 / 2)) (Vec3 10 10 10) (Vec3 10 10 0)]"
    using l2 n0 n1 by (auto simp: list_eq_iff_nth_eq less_Suc_eq numeral_2_eq_2)
  have t: "map timestep (cnt_infos pci) = [0, 1]" by (simp add: eq)
  have n: "n_steps (basic_info pci) = 2" using steps by (simp add: example_path_def)
  show ?thesis
    by (intro conjI exI [of _ pci]) (fact example_manipulator p eq t n)+
qed

text \<open>
  Claim C3: the collision term of \<open>makeProblem\<close> covers the steps from 0 to
  \<open>n_steps - 1\<close> and is not continuous; it has one safety margin object per step, and
  in each of them the pair of \<open>sander_disk\<close> and \<open>part\<close> has the margin -0.01 and the
  weight 20, the pair of \<open>sander_shaft\<close> and \<open>part\<close> the margin 0.0 and the weight 20,
  and every other pair of bodies the margin 0.025 and the weight 20.
\<close>

theorem collision_cost_margins:
  "getManipulator env ''my_robot'' = Some k \<Longrightarrow>
   \<exists>pci sm. makeProblem quat env path = Inr pci \<and>
     cost_infos pci ! 2 =
       CollisionCostInfo ''collision'' TT_COST False 0 (n_steps (basic_info pci) - 1) 1 sm \<and>
     n_steps (basic_info pci) = int (length path) \<and>
     length sm = length path \<and>
     (\<forall>d\<in>set sm.
        getPairSafetyMarginData d ''sander_disk'' ''part'' = (- 0.01, 20) \<and>
        getPairSafetyMarginData d ''part'' ''sander_disk'' = (- 0.01, 20) \<and>
        getPairSafetyMarginData d ''sander_shaft'' ''part'' = (0.0, 20) \<and>
        getPairSafetyMarginData d ''part'' ''sander_shaft'' = (0.0, 20) \<and>
        (\<forall>a b. {a, b} \<noteq> {''sander_disk'', ''part''} \<and> {a, b} \<noteq> {''sander_shaft'', ''part''} \<longrightarrow>
           getPairSafetyMarginData d a b = (0.025, 20)))"
proof -
  assume k: "getManipulator env ''my_robot'' = Some k"
  show ?thesis
    unfolding makeProblem_Some [OF k]
    by (simp add: special_cost_disk special_cost_shaft special_cost_other
        getPair_commute [of _ "''part''" "''sander_disk''"]
        getPair_commute [of _ "''part''" "''sander_shaft''"])
qed

theorem collision_cost_margins_witness:
  "getManipulator example_env ''my_robot'' = Some example_kin \<and>
   (\<exists>pci sm. makeProblem example_quat example_env [Identity, origin] = Inr pci \<and>
     cost_infos pci ! 2 =
       CollisionCostInfo ''collision'' TT_COST False 0 (n_steps (basic_info pci) - 1) 1 sm \<and>
     n_steps (basic_info pci) = int (length [Identity, origin]) \<and>
     length sm = length [Identity, origin] \<and>
     (\<forall>d\<in>set sm.
        getPairSafetyMarginData d ''sander_disk'' ''part'' = (- 0.01, 20) \<and>
        getPairSafetyMarginData d ''part'' ''sander_disk'' = (- 0.01, 20) \<and>
        getPairSafetyMarginData d ''sander_shaft'' ''part'' = (0.0, 20) \<and>
        getPairSafetyMarginData d ''part'' ''sander_shaft'' = (0.0, 20) \<and>
        (\<forall>a b. {a, b} \<noteq> {''sander_disk'', ''part''} \<and> {a, b} \<noteq> {''sander_shaft'', ''part''} \<longrightarrow>
           getPairSafetyMarginData d a b = (0.025, 20))))"
  by (rule conjI [OF example_manipulator collision_cost_margins [OF example_manipulator]])

text \<open>
  Claim C6: \<open>makeProblem\<close> adds exactly three cost terms, the joint velocity term, the
  joint acceleration term and the collision term, in this order; the velocity term has
  the coefficient 2.5 for every joint and the acceleration term 5.0, and neither is
  restricted to a window of steps.
\<close>

theorem cost_terms:
  "getManipulator env ''my_robot'' = Some k \<Longrightarrow>
   \<exists>pci sm. makeProblem quat env path = Inr pci \<and>
     cost_infos pci =
       [JointVelCostInfo ''joint_vel'' TT_COST (replicate (numJoints k) 2.5),
        JointAccCostInfo ''joint_acc'' TT_COST (replicate (numJoints k) 5.0),
        CollisionCostInfo ''collision'' TT_COST False 0 (int (length path) - 1) 1 sm] \<and>
     step_window (cost_infos pci ! 0) = None \<and>
     step_window (cost_infos pci ! 1) = None \<and>
     length (coeffs (cost_infos pci ! 0)) = numJoints k \<and>
     length (coeffs (cost_infos pci ! 1)) = numJoints k \<and>
     (\<forall>j<numJoints k.
        coeffs (cost_infos pci ! 0) ! j = 2.5 \<and> coeffs (cost_infos pci ! 1) ! j = 5.0)"
proof -
  assume k: "getManipulator env ''my_robot'' = Some k"
  show ?thesis unfolding makeProblem_Some [OF k] by simp
qed

theorem cost_terms_witness:
  "getManipulator example_env ''my_robot'' = Some example_kin \<and>
   (\<exists>pci sm. makeProblem example_quat example_env [Identity, origin] = Inr pci \<and>
     cost_infos pci =
       [JointVelCostInfo ''joint_vel'' TT_COST (replicate (numJoints example_kin) 2.5),
        JointAccCostInfo ''joint_acc'' TT_COST (replicate (numJoints example_kin) 5.0),
        CollisionCostInfo ''collision'' TT_COST False 0 (int (length [Identity, origin]) - 1) 1 sm] \<and>
     step_window (cost_infos pci ! 0) = None \<and>
     step_window (cost_infos pci ! 1) = None \<and>
     length (coeffs (cost_infos pci ! 0)) = numJoints example_kin \<and>
     length (coeffs (cost_infos pci ! 1)) = numJoints example_kin \<and>
     (\<forall>j<numJoints example_kin.
        coeffs (cost_infos pci ! 0) ! j = 2.5 \<and> coeffs (cost_infos pci ! 1) ! j = 5.0))"
  by (rule conjI [OF example_manipulator cost_terms [OF example_manipulator]])

section \<open>The exported trajectory\<close>

lemma positions_loop_eq:
  "positions_loop result i j ps = ps @ map (coeff result i) [j..<cols result]"
proof (induction result i j ps rule: positions_loop.induct)
  case (1 result i j ps)
  show ?case
  proof (cases "j < cols result")
    case True
    then show ?thesis
      using "1.IH" [OF True] by (subst positions_loop.simps) (simp add: upt_conv_Cons)
  next
    case False
    then show ?thesis by (subst positions_loop.simps) simp
  qed
qed

lemma points_loop_eq:
  "points_loop result i pts = pts @ map (row_point result) [i..<rows result]"
proof (induction result i pts rule: points_loop.induct)
  case (1 result i pts)
  show ?case
  proof (cases "i < rows result")
    case True
    then show ?thesis
      using "1.IH" [OF True]
      by (subst points_loop.simps) (simp add: upt_conv_Cons positions_loop_eq row_point_def)
  next
    case False
    then show ?thesis by (subst points_loop.simps) simp
  qed
qed

lemma sorted_times: "sorted_wrt (<) (map (\<lambda>i. real i) [0..<n])"
  by (simp add: sorted_wrt_map)

lemma example_export:
  "export_trajectory OPT_NOT_CONVERGED example_result [''joint_1''] =
     ([''Did not converge''],
      \<lparr>joint_names = [''joint_1''],
       points = [\<lparr>positions = [0], time_from_start = 0\<rparr>,
                 \<lparr>positions = [1 / 2], time_from_start = 1\<rparr>]\<rparr>)"
  by (simp add: export_trajectory_def points_loop.simps positions_loop.simps example_result_def)

text \<open>
  Claim C7: when the solver ends with a status other than converged, a warning is
  logged and the export goes on: the trajectory has one point for every row of the solved
  matrix, point \<open>i\<close> holds row \<open>i\<close> and has the time offset \<open>i\<close>, so the offsets start at
  0, advance by 1 per step and increase strictly.
\<close>

theorem export_not_converged:
  "export_trajectory OPT_NOT_CONVERGED result names = (warnings, out) \<Longrightarrow>
   warnings = [''Did not converge''] \<and>
   joint_names out = names \<and>
   length (points out) = rows result \<and>
   (\<forall>i<rows result.
      positions (points out ! i) = map (coeff result i) [0..<cols result] \<and>
      time_from_start (points out ! i) = real i) \<and>
   sorted_wrt (<) (map time_from_start (points out))"
proof -
  assume "export_trajectory OPT_NOT_CONVERGED result names = (warnings, out)"
  then have w: "warnings = [''Did not converge'']"
    and out: "out = \<lparr>joint_names = names, points = map (row_point result) [0..<rows result]\<rparr>"
    by (auto simp: export_trajectory_def points_loop_eq)
  have "map time_from_start (points out) = map (\<lambda>i. real i) [0..<rows result]"
    by (simp add: out row_point_def comp_def)
  then have "sorted_wrt (<) (map time_from_start (points out))"
    by (simp only: sorted_times)
  then show ?thesis using w by (simp add: out row_point_def)
qed

theorem export_not_converged_witness:
  "export_trajectory OPT_NOT_CONVERGED example_result [''joint_1''] =
     ([''Did not converge''],
      \<lparr>joint_names = [''joint_1''],
       points = [\<lparr>positions = [0], time_from_start = 0\<rparr>,
                 \<lparr>positions = [1 / 2], time_from_start = 1\<rparr>]\<rparr>) \<and>
   length [\<lparr>positions = [0::real], time_from_start = 0::real\<rparr>,
           \<lparr>positions = [1 / 2], time_from_start = 1\<rparr>] = rows example_result \<and>
   map time_from_start [\<lparr>positions = [0::real], time_from_start = 0::real\<rparr>,
           \<lparr>positions = [1 / 2], time_from_start = 1\<rparr>] = [0, 1]"
  using export_not_converged [OF example_export] example_export by simp

end
